theory Spec2Isabelle
  imports Complex_Main
begin

section \<open>Strings and numbers of the host language\<close>

text \<open>
  A JavaScript string is a sequence of UTF-16 code units; each code unit is modelled as a
  natural number, so that \<open>length\<close> counts what the \<open>.length\<close> property counts.
  The bullet separator U+2022 is the code unit 8226. \<open>str\<close> embeds an ASCII literal.

  \<open>toUpperCase\<close> maps the letters a to z and leaves every other code unit alone. The
  Unicode case mapping of the host can rewrite further code units, but never into a decimal
  digit, a dot, a comma or one of the letters K, M and B, which are the only code units the
  normalizer looks at afterwards.

  A JavaScript number is an IEEE 754 double. \<open>Fin q\<close> is the finite double whose
  value is the rational \<open>q\<close>; \<open>fl\<close> rounds a rational to the nearest double
  (53 significant bits, ties to even, gradual underflow, overflow to infinity). The sign of a
  zero is not represented.
\<close>

type_synonym jstring = "nat list"

definition str :: "string \<Rightarrow> jstring" where
  "str s = map of_char s"

text \<open>
  \<open>isDigit\<close> is the class \<^verbatim>\<open>\d\<close> (the ten ASCII digits), and \<open>isSpace\<close>
  the class \<^verbatim>\<open>\s\<close>, which is also what \<open>trim\<close> and \<open>parseFloat\<close> skip: tab,
  line feed, vertical tab, form feed, carriage return, space, U+00A0, U+1680, U+2000 to U+200A,
  U+2028, U+2029, U+202F, U+205F, U+3000 and U+FEFF.
\<close>

definition isDigit :: "nat \<Rightarrow> bool" where
  "isDigit c = (48 \<le> c \<and> c \<le> 57)"

definition isSpace :: "nat \<Rightarrow> bool" where
  "isSpace c = (c \<in> set [9, 10, 11, 12, 13, 32, 160, 5760, 8192, 8193, 8194, 8195, 8196, 8197,
      8198, 8199, 8200, 8201, 8202, 8232, 8233, 8239, 8287, 12288, 65279])"

definition toUpper :: "nat \<Rightarrow> nat" where
  "toUpper c = (if 97 \<le> c \<and> c \<le> 122 then c - 32 else c)"

definition toUpperCase :: "jstring \<Rightarrow> jstring" where
  "toUpperCase s = map toUpper s"

fun startsWith :: "jstring \<Rightarrow> jstring \<Rightarrow> bool" where
  "startsWith s [] = True"
| "startsWith [] (p # ps) = False"
| "startsWith (c # cs) (p # ps) = (c = p \<and> startsWith cs ps)"

fun str_includes :: "jstring \<Rightarrow> jstring \<Rightarrow> bool" where
  "str_includes [] t = (t = [])"
| "str_includes (c # cs) t = (startsWith (c # cs) t \<or> str_includes cs t)"

datatype number = NaN | PosInf | NegInf | Fin rat

text \<open>
  Rounding to a double. For \<open>x > 0\<close>, \<open>ilog2 x\<close> is the exponent \<open>e\<close> with
  \<open>2^e \<le> x < 2^(e+1)\<close>; the spacing of the doubles around \<open>x\<close> is \<open>2^k\<close> with
  \<open>k = max (e - 52) (-1074)\<close>, and \<open>x\<close> is rounded to the nearest multiple of
  \<open>2^k\<close>, a tie going to the even multiple. A result of \<open>2^1024\<close> or more is infinity.
\<close>

fun bitlen :: "nat \<Rightarrow> nat" where
  "bitlen n = (if n = 0 then 0 else Suc (bitlen (n div 2)))"

declare bitlen.simps [simp del]

definition pow2 :: "int \<Rightarrow> rat" where
  "pow2 k = (if 0 \<le> k then 2 ^ nat k else 1 / 2 ^ nat (- k))"

definition ilog2 :: "rat \<Rightarrow> int" where
  "ilog2 x = (if 1 \<le> x then int (bitlen (nat \<lfloor>x\<rfloor>)) - 1
              else - int (bitlen (nat (\<lceil>1 / x\<rceil> - 1))))"

definition round_half_even :: "rat \<Rightarrow> int" where
  "round_half_even y =
     (let f = \<lfloor>y\<rfloor>; r = y - of_int f
      in if r < 1 / 2 then f else if 1 / 2 < r then f + 1 else if even f then f else f + 1)"

definition fl :: "rat \<Rightarrow> number" where
  "fl x = (if x = 0 then Fin 0 else
     let a = \<bar>x\<bar>;
         k = max (ilog2 a - 52) (- 1074);
         v = of_int (round_half_even (a / pow2 k)) * pow2 k
     in if 2 ^ 1024 \<le> v then (if 0 < x then PosInf else NegInf)
        else Fin (if 0 < x then v else - v))"

fun js_mul :: "number \<Rightarrow> number \<Rightarrow> number" where
  "js_mul (Fin a) (Fin b) = fl (a * b)"
| "js_mul NaN y = NaN"
| "js_mul x NaN = NaN"
| "js_mul PosInf (Fin b) = (if b = 0 then NaN else if 0 < b then PosInf else NegInf)"
| "js_mul NegInf (Fin b) = (if b = 0 then NaN else if 0 < b then NegInf else PosInf)"
| "js_mul (Fin a) PosInf = (if a = 0 then NaN else if 0 < a then PosInf else NegInf)"
| "js_mul (Fin a) NegInf = (if a = 0 then NaN else if 0 < a then NegInf else PosInf)"
| "js_mul PosInf PosInf = PosInf"
| "js_mul NegInf NegInf = PosInf"
| "js_mul PosInf NegInf = NegInf"
| "js_mul NegInf PosInf = NegInf"

fun Math_round :: "number \<Rightarrow> number" where
  "Math_round (Fin x) = Fin (of_int \<lfloor>x + 1 / 2\<rfloor>)"
| "Math_round n = n"

text \<open>
  \<open>parseFloat\<close> skips leading white space, reads an optional sign, then either the word
  Infinity or the longest prefix of the form digits, optional dot and digits, optional
  exponent (the letter e or E, an optional sign, digits); the digits before or after the dot
  may be missing, but not both. Without such a prefix the result is NaN.
\<close>

definition digits_val :: "jstring \<Rightarrow> nat" where
  "digits_val ds = foldl (\<lambda>a c. 10 * a + (c - 48)) 0 ds"

definition exponent_part :: "jstring \<Rightarrow> int" where
  "exponent_part r =
     (case r of
        [] \<Rightarrow> 0
      | c # r1 \<Rightarrow>
          if c = 101 \<or> c = 69 then
            (case r1 of
               [] \<Rightarrow> 0
             | d # r2 \<Rightarrow>
                 if d = 43 then (if takeWhile isDigit r2 = [] then 0 else int (digits_val (takeWhile isDigit r2)))
                 else if d = 45 then (if takeWhile isDigit r2 = [] then 0 else - int (digits_val (takeWhile isDigit r2)))
                 else if takeWhile isDigit r1 = [] then 0 else int (digits_val (takeWhile isDigit r1)))
          else 0)"

definition scale10 :: "rat \<Rightarrow> int \<Rightarrow> rat" where
  "scale10 x e = (if 0 \<le> e then x * 10 ^ nat e else x / 10 ^ nat (- e))"

definition decimal_prefix :: "jstring \<Rightarrow> rat option" where
  "decimal_prefix u =
     (let ip = takeWhile isDigit u;
          r1 = dropWhile isDigit u;
          fp = (case r1 of [] \<Rightarrow> [] | c # r \<Rightarrow> if c = 46 then takeWhile isDigit r else []);
          r2 = (case r1 of [] \<Rightarrow> [] | c # r \<Rightarrow> if c = 46 then dropWhile isDigit r else r1)
      in if ip = [] \<and> fp = [] then None
         else Some (scale10 (of_nat (digits_val ip) + of_nat (digits_val fp) / 10 ^ length fp)
                            (exponent_part r2)))"

definition parseFloat :: "jstring \<Rightarrow> number" where
  "parseFloat s =
     (let t = dropWhile isSpace s;
          neg = (t \<noteq> [] \<and> hd t = 45);
          u = (if t \<noteq> [] \<and> (hd t = 43 \<or> hd t = 45) then tl t else t)
      in if startsWith u (str ''Infinity'') then (if neg then NegInf else PosInf)
         else (case decimal_prefix u of
                 None \<Rightarrow> NaN
               | Some q \<Rightarrow> fl (if neg then - q else q)))"

text \<open>
  \<open>match_numeric\<close> is the first match of \<^verbatim>\<open>/(\d+(?:[.,]\d+)?)/\<close>: the match starts
  at the first digit of the string, takes all digits that follow, and then a dot or comma
  with the digits after it if at least one digit follows. \<open>replace_first\<close> is
  \<^verbatim>\<open>String.prototype.replace\<close> with two one-character strings.

  \<open>parseMetric\<close> is the function of that name in both enhanced variants (the two copies
  are identical); \<open>parseMetric_main\<close> is the one of main.ts, which has neither the guard for
  the empty string, nor the removal of white space, nor the case for B.
\<close>

definition match_numeric :: "jstring \<Rightarrow> jstring option" where
  "match_numeric s =
     (case dropWhile (\<lambda>c. \<not> isDigit c) s of
        [] \<Rightarrow> None
      | d # t \<Rightarrow>
          (let ip = takeWhile isDigit (d # t); r = dropWhile isDigit (d # t)
           in case r of
                c # e # r' \<Rightarrow>
                  if (c = 46 \<or> c = 44) \<and> isDigit e then Some (ip @ c # takeWhile isDigit (e # r'))
                  else Some ip
              | _ \<Rightarrow> Some ip))"

fun replace_first :: "nat \<Rightarrow> nat \<Rightarrow> jstring \<Rightarrow> jstring" where
  "replace_first a b [] = []"
| "replace_first a b (c # cs) = (if c = a then b # cs else c # replace_first a b cs)"

definition parseMetric :: "jstring \<Rightarrow> number" where
  "parseMetric val =
     (if val = [] then Fin 0 else
      let cleanValue = toUpperCase (filter (\<lambda>c. \<not> (c = 44 \<or> isSpace c)) val);
          numericPart = (case match_numeric cleanValue of Some m \<Rightarrow> m | None \<Rightarrow> str ''0'');
          normalizedNumeric = replace_first 44 46 numericPart;
          numericValue = parseFloat normalizedNumeric
      in if str_includes cleanValue (str ''B'') then Math_round (js_mul numericValue (Fin 1000000000))
         else if str_includes cleanValue (str ''M'') then Math_round (js_mul numericValue (Fin 1000000))
         else if str_includes cleanValue (str ''K'') then Math_round (js_mul numericValue (Fin 1000))
         else Math_round numericValue)"


section \<open>Regular expressions\<close>

text \<open>
  A backtracking matcher with the priorities of the host's regular expressions. The function
  \<open>ms\<close> lists, in the order in which backtracking would try them, the states
  (remaining input and captures) in which a pattern can finish when started in a given state;
  the first element is the match that is reported. A quantifier with minimum 0 rejects an
  iteration that consumes nothing. With the flag \<open>i\<close> a letter of the pattern matches
  both of its cases. Captures never reset, as no pattern below has a capture inside a quantifier.
\<close>

datatype atom = Ch nat | Rng nat nat | Dig | Spc

datatype rx =
    One "atom list"
  | NotOne "atom list"
  | AnyChar
  | Cat rx rx
  | Alt rx rx
  | Rep nat "nat option" bool rx
  | Cap nat rx
  | Eps
  | Eoi

type_synonym mstate = "jstring \<times> (nat \<Rightarrow> jstring option)"

definition case_variants :: "nat \<Rightarrow> nat list" where
  "case_variants c = (if 97 \<le> c \<and> c \<le> 122 then [c, c - 32]
                      else if 65 \<le> c \<and> c \<le> 90 then [c, c + 32] else [c])"

fun atom_ok :: "bool \<Rightarrow> nat \<Rightarrow> atom \<Rightarrow> bool" where
  "atom_ok ic c (Ch x) = (if ic then x \<in> set (case_variants c) else x = c)"
| "atom_ok ic c (Rng lo hi) =
     (if ic then list_ex (\<lambda>v. lo \<le> v \<and> v \<le> hi) (case_variants c) else lo \<le> c \<and> c \<le> hi)"
| "atom_ok ic c Dig = isDigit c"
| "atom_ok ic c Spc = isSpace c"

definition isLineTerminator :: "nat \<Rightarrow> bool" where
  "isLineTerminator c = (c = 10 \<or> c = 13 \<or> c = 8232 \<or> c = 8233)"

function rep :: "(mstate \<Rightarrow> mstate list) \<Rightarrow> nat \<Rightarrow> nat option \<Rightarrow> bool \<Rightarrow> mstate \<Rightarrow> mstate list" where
  "rep f lo hi greedy st =
     (if hi = Some 0 then [st]
      else if 0 < lo then
        concat (map (\<lambda>st'. rep f (lo - 1) (map_option (\<lambda>h. h - 1) hi) greedy st') (f st))
      else
        (let more = concat (map (\<lambda>st'. if length (fst st') < length (fst st)
                                          then rep f 0 (map_option (\<lambda>h. h - 1) hi) greedy st'
                                          else []) (f st))
         in if greedy then more @ [st] else st # more))"
  by pat_completeness auto
termination
  by (relation "measures [\<lambda>(f, lo, hi, g, st). lo, \<lambda>(f, lo, hi, g, st). length (fst st)]") auto

declare rep.simps [simp del]

primrec ms :: "bool \<Rightarrow> rx \<Rightarrow> mstate \<Rightarrow> mstate list" where
  "ms ic (One as) = (\<lambda>st. case fst st of [] \<Rightarrow> []
        | c # cs \<Rightarrow> if list_ex (atom_ok ic c) as then [(cs, snd st)] else [])"
| "ms ic (NotOne as) = (\<lambda>st. case fst st of [] \<Rightarrow> []
        | c # cs \<Rightarrow> if list_ex (atom_ok ic c) as then [] else [(cs, snd st)])"
| "ms ic AnyChar = (\<lambda>st. case fst st of [] \<Rightarrow> []
        | c # cs \<Rightarrow> if isLineTerminator c then [] else [(cs, snd st)])"
| "ms ic (Cat a b) = (\<lambda>st. concat (map (ms ic b) (ms ic a st)))"
| "ms ic (Alt a b) = (\<lambda>st. ms ic a st @ ms ic b st)"
| "ms ic (Rep lo hi greedy r) = (\<lambda>st. rep (ms ic r) lo hi greedy st)"
| "ms ic (Cap n r) = (\<lambda>st. map (\<lambda>st'. (fst st', (snd st')(n \<mapsto> take (length (fst st) - length (fst st')) (fst st))))
                            (ms ic r st))"
| "ms ic Eps = (\<lambda>st. [st])"
| "ms ic Eoi = (\<lambda>st. if fst st = [] then [st] else [])"

fun rx_search :: "bool \<Rightarrow> rx \<Rightarrow> jstring \<Rightarrow> (jstring \<times> mstate) option" where
  "rx_search ic r [] = (case ms ic r ([], Map.empty) of [] \<Rightarrow> None | st # _ \<Rightarrow> Some ([], st))"
| "rx_search ic r (c # cs) =
     (case ms ic r (c # cs, Map.empty) of [] \<Rightarrow> rx_search ic r cs | st # _ \<Rightarrow> Some (c # cs, st))"

definition matched :: "jstring \<times> mstate \<Rightarrow> jstring" where
  "matched m = take (length (fst m) - length (fst (snd m))) (fst m)"

definition group :: "jstring \<times> mstate \<Rightarrow> nat \<Rightarrow> jstring option" where
  "group m n = snd (snd m) n"

definition lit :: "string \<Rightarrow> rx" where
  "lit s = foldr (\<lambda>c r. Cat (One [Ch (of_char c)]) r) s Eps"

definition opt :: "rx \<Rightarrow> rx" where "opt r = Rep 0 (Some 1) True r"
definition star :: "rx \<Rightarrow> rx" where "star r = Rep 0 None True r"
definition plus :: "rx \<Rightarrow> rx" where "plus r = Rep 1 None True r"

definition num_rx :: rx where
  "num_rx = Cat (Rep 1 (Some 3) True (One [Dig]))
            (Cat (star (Cat (One [Ch 44, Ch 46]) (Rep 3 (Some 3) True (One [Dig]))))
            (Cat (opt (Cat (One [Ch 46]) (plus (One [Dig]))))
                 (opt (One [Ch 75, Ch 77, Ch 66]))))"

section \<open>The page, the record and the dataset\<close>

text \<open>
  The browser page is outside the program. It is modelled as a snapshot: each operation the
  handler calls is a field of the record \<open>page\<close>, and an operation that can reject
  returns a sum whose left summand is the thrown object. \<open>query\<close> stands for
  \<open>page.$\<close>, \<open>queryAll\<close> for \<open>page.$$\<close>, and the fields of an
  \<open>element\<close> for the three properties the handlers read with \<open>page.evaluate\<close>.
  \<open>sharedData\<close> is the outcome of the in-page script that looks for the embedded
  shortcode_media object. \<open>pushData\<close> appends one item to the dataset and is assumed
  not to reject.
\<close>

definition trim :: "jstring \<Rightarrow> jstring" where
  "trim s = rev (dropWhile isSpace (rev (dropWhile isSpace s)))"

definition first_line :: "jstring \<Rightarrow> jstring" where
  "first_line s = takeWhile (\<lambda>c. c \<noteq> 10) s"

definition rx_match :: "bool \<Rightarrow> rx \<Rightarrow> jstring \<Rightarrow> (jstring \<times> mstate) option" where
  "rx_match ic r s = rx_search ic r s"

definition grp :: "jstring \<times> mstate \<Rightarrow> nat \<Rightarrow> jstring" where
  "grp m n = (case snd (snd m) n of Some g \<Rightarrow> g | None \<Rightarrow> [])"

text \<open>
  A thrown object is an \<open>Error\<close> with its message or something else; the outer handler
  of each variant emits the message, or "Unknown error occurred".
\<close>

datatype exn = Error jstring | NonError

type_synonym 'a res = "exn + 'a"

definition message_of :: "exn \<Rightarrow> jstring" where
  "message_of e = (case e of Error m \<Rightarrow> m | NonError \<Rightarrow> str ''Unknown error occurred'')"

record element =
  href :: "jstring option res"
  textContent :: "jstring option res"
  ariaLabel :: "jstring option res"

record media =
  owner_username :: "jstring option"
  like_count :: "number option"
  video_view_count :: "number option"
  comment_count :: "number option"
  caption_text :: "jstring option"

record page =
  goto :: "jstring \<Rightarrow> unit res"
  waitForSelector :: "jstring \<Rightarrow> unit res"
  waitForTimeout :: "unit res"
  currentUrl :: jstring
  bodyText :: "jstring option res"
  sharedData :: "media option res"
  query :: "jstring \<Rightarrow> element option res"
  queryAll :: "jstring \<Rightarrow> element list res"

record ReelData =
  username :: "jstring option"
  audioUsed :: "jstring option"
  comments :: "number option"
  likes :: "number option"
  views :: "number option"
  title :: "jstring option"
  description :: "jstring option"
  url :: jstring
  error :: "jstring option"

definition new_ReelData :: "jstring \<Rightarrow> ReelData" where
  "new_ReelData u = \<lparr>username = None, audioUsed = None, comments = None, likes = None,
     views = None, title = None, description = None, url = u, error = None\<rparr>"

definition pushData :: "ReelData \<Rightarrow> ReelData list \<Rightarrow> ReelData list" where
  "pushData item dataset = dataset @ [item]"

text \<open>
  Truthiness of an optional string and of an optional number, for the tests of the form
  \<^verbatim>\<open>if (!reelData.likes)\<close>: absent, the empty string, 0 and NaN are falsy.
\<close>

definition truthy_str :: "jstring option \<Rightarrow> bool" where
  "truthy_str v = (case v of Some s \<Rightarrow> s \<noteq> [] | None \<Rightarrow> False)"

definition truthy_num :: "number option \<Rightarrow> bool" where
  "truthy_num v = (case v of Some (Fin q) \<Rightarrow> q \<noteq> 0 | Some PosInf \<Rightarrow> True | Some NegInf \<Rightarrow> True | _ \<Rightarrow> False)"

definition bullet :: nat where "bullet = 8226"

subsection \<open>main.ts\<close>







definition num_main :: rx where
  "num_main = Cat (Rep 1 (Some 3) True (One [Dig]))
             (Cat (star (Cat (One [Ch 44]) (Rep 3 (Some 3) True (One [Dig]))))
             (Cat (opt (Cat (One [Ch 46]) (plus (One [Dig]))))
                  (opt (One [Ch 75, Ch 77]))))"

definition likes_rx_main :: rx where
  "likes_rx_main = Cat (Cap 1 num_main) (Cat (star (One [Spc])) (Cat (lit ''like'') (opt (lit ''s''))))"

definition views_rx_main :: rx where
  "views_rx_main = Cat (Cap 1 num_main) (Cat (star (One [Spc])) (Cat (lit ''view'') (opt (lit ''s''))))"

definition comments_rx_main :: rx where
  "comments_rx_main = Cat (Cap 1 num_main) (Cat (star (One [Spc])) (Cat (lit ''comment'') (opt (lit ''s''))))"











fun match_all_from :: "bool \<Rightarrow> rx \<Rightarrow> nat \<Rightarrow> jstring \<Rightarrow> jstring list" where
  "match_all_from ic r k [] =
     (if k = 0 then (case ms ic r ([], Map.empty) of [] \<Rightarrow> [] | st # _ \<Rightarrow> [[]]) else [])"
| "match_all_from ic r k (c # cs) =
     (if 0 < k then match_all_from ic r (k - 1) cs
      else (case ms ic r (c # cs, Map.empty) of
              [] \<Rightarrow> match_all_from ic r 0 cs
            | st # _ \<Rightarrow>
                (let m = take (length (c # cs) - length (fst st)) (c # cs)
                 in m # match_all_from ic r (length m - 1) cs)))"

definition rx_match_all :: "bool \<Rightarrow> rx \<Rightarrow> jstring \<Rightarrow> jstring list" where
  "rx_match_all ic r s = match_all_from ic r 0 s"

definition bodyTextOrEmpty :: "page \<Rightarrow> jstring res" where
  "bodyTextOrEmpty pg =
     (case bodyText pg of Inl e \<Rightarrow> Inl e | Inr None \<Rightarrow> Inr [] | Inr (Some t) \<Rightarrow> Inr t)"

subsection \<open>First enhanced variant (internal API data, then DOM selectors)\<close>

text \<open>
  The request handler of the first variant in the unnamed source file (lines 57 to 362).
  Navigation (lines 64 to 82): \<open>goto\<close> may throw; waiting for the article element has its
  own handler; then the URL test throws the redirect error. Strategy 1 (lines 86 to 122)
  copies the fields of the embedded shortcode_media object, when the page has one.
\<close>

definition api_strategy_v2 :: "page \<Rightarrow> ReelData \<Rightarrow> ReelData" where
  "api_strategy_v2 pg reelData =
     (case sharedData pg of
        Inl e \<Rightarrow> reelData
      | Inr None \<Rightarrow> reelData
      | Inr (Some m) \<Rightarrow>
          (let r = reelData\<lparr>username := owner_username m, likes := like_count m,
                     views := video_view_count m, comments := comment_count m,
                     description := caption_text m\<rparr>
           in case caption_text m of
                None \<Rightarrow> r
              | Some d \<Rightarrow>
                  if d = [] then r
                  else (let firstLine = trim (first_line d)
                        in if length firstLine \<le> 100 then r\<lparr>title := Some firstLine\<rparr> else r)))"

text \<open>
  Username (lines 127 to 164): for each selector, for each element, the handle is the path
  segment after the host in the link target, matched by \<^verbatim>\<open>/instagram\.com\/([^/]+)/\<close>,
  or else the trimmed link text.
\<close>

definition usernameSelectors_v2 :: "jstring list" where
  \<open>usernameSelectors_v2 = [str ''article header h2 a'', str ''header h2 a'',
     str ''article header div div div a[href^="/"]'', str ''span[dir="auto"] a[href^="/"]'',
     str ''a[role="link"][href^="/"]:not([href="/"])'', str ''header a[href^="/"]:not([href="/"])'']\<close>

definition href_rx_v2 :: rx where
  "href_rx_v2 = Cat (lit ''instagram.com/'') (Cap 1 (plus (NotOne [Ch 47])))"

fun username_elements_v2 :: "element list \<Rightarrow> jstring option res" where
  "username_elements_v2 [] = Inr None"
| "username_elements_v2 (el # rest) =
     (case href el of
        Inl e \<Rightarrow> Inl e
      | Inr h \<Rightarrow>
          (case textContent el of
             Inl e \<Rightarrow> Inl e
           | Inr t \<Rightarrow>
               (case (h, t) of
                  (Some hs, Some ts) \<Rightarrow>
                    if hs \<noteq> [] \<and> ts \<noteq> [] then
                      (let usernameFromHref = map_option (\<lambda>m. grp m 1) (rx_match False href_rx_v2 hs);
                           usernameFromText = trim ts;
                           u = (if truthy_str usernameFromHref then (case usernameFromHref of Some g \<Rightarrow> g | None \<Rightarrow> []) else usernameFromText)
                       in if u \<noteq> [] \<and> \<not> str_includes u [bullet]
                             \<and> \<not> str_includes u (str ''instagram.com'') \<and> 0 < length u
                          then Inr (Some u) else username_elements_v2 rest)
                    else username_elements_v2 rest
                | _ \<Rightarrow> username_elements_v2 rest)))"

fun username_selectors_v2 :: "page \<Rightarrow> jstring list \<Rightarrow> jstring option" where
  "username_selectors_v2 pg [] = None"
| "username_selectors_v2 pg (selector # rest) =
     (case queryAll pg selector of
        Inl e \<Rightarrow> None
      | Inr elements \<Rightarrow>
          (case username_elements_v2 elements of
             Inl e \<Rightarrow> None
           | Inr (Some u) \<Rightarrow> Some u
           | Inr None \<Rightarrow> username_selectors_v2 pg rest))"

definition extract_username_v2 :: "page \<Rightarrow> ReelData \<Rightarrow> ReelData" where
  "extract_username_v2 pg reelData =
     (if truthy_str (username reelData) then reelData
      else (case username_selectors_v2 pg usernameSelectors_v2 of
              Some u \<Rightarrow> reelData\<lparr>username := Some u\<rparr>
            | None \<Rightarrow> reelData))"

text \<open>
  Audio (lines 167 to 220): three text patterns, \<^verbatim>\<open>/([^\n.]+)\s*.\s*([^\n.]+)/g\<close> with the
  bullet U+2022 in place of the dot, \<^verbatim>\<open>/(Original audio)/i\<close> and
  \<^verbatim>\<open>/(Audio is muted)/i\<close>; then the selectors; then the sentinel. The handler of the block
  assigns "Audio extraction failed". The last selector contains the bullet and is spelled out
  in code units.
\<close>

definition audioSelectors_v2 :: "jstring list" where
  \<open>audioSelectors_v2 = [str ''div[class*="music"] span'', str ''div[class*="audio"] span'',
     str ''a[href*="/audio-page/"]'', str ''[data-testid="audio-attribution"]'',
     str ''span:contains("Original audio")'', [115, 112, 97, 110, 58, 99, 111, 110, 116, 97, 105, 110,
       115, 40, 34, bullet, 34, 41]]\<close>

definition audioPatterns_v2 :: "(bool \<times> rx) list" where
  "audioPatterns_v2 =
     [(False, Cat (Cap 1 (plus (NotOne [Ch 10, Ch bullet])))
               (Cat (star (One [Spc])) (Cat (One [Ch bullet])
               (Cat (star (One [Spc])) (Cap 2 (plus (NotOne [Ch 10, Ch bullet]))))))),
      (True, Cap 1 (lit ''Original audio'')),
      (True, Cap 1 (lit ''Audio is muted''))]"

fun audio_patterns_v2 :: "(bool \<times> rx) list \<Rightarrow> jstring \<Rightarrow> jstring option" where
  "audio_patterns_v2 [] allText = None"
| "audio_patterns_v2 (p # rest) allText =
     (case rx_search (fst p) (snd p) allText of
        Some m \<Rightarrow> Some (trim (matched m))
      | None \<Rightarrow> audio_patterns_v2 rest allText)"

fun audio_selectors_v2 :: "page \<Rightarrow> jstring list \<Rightarrow> jstring option res" where
  "audio_selectors_v2 pg [] = Inr None"
| "audio_selectors_v2 pg (selector # rest) =
     (case query pg selector of
        Inl e \<Rightarrow> Inl e
      | Inr None \<Rightarrow> audio_selectors_v2 pg rest
      | Inr (Some audioElement) \<Rightarrow>
          (case textContent audioElement of
             Inl e \<Rightarrow> Inl e
           | Inr None \<Rightarrow> audio_selectors_v2 pg rest
           | Inr (Some audio) \<Rightarrow>
               if audio \<noteq> [] \<and> trim audio \<noteq> [] \<and> 3 < length audio then Inr (Some (trim audio))
               else audio_selectors_v2 pg rest))"

definition audio_text_step_v2 :: "jstring \<Rightarrow> ReelData \<Rightarrow> ReelData" where
  "audio_text_step_v2 allText r =
     (case audio_patterns_v2 audioPatterns_v2 allText of
        Some a \<Rightarrow> r\<lparr>audioUsed := Some a\<rparr>
      | None \<Rightarrow> r)"

definition audio_dom_step_v2 :: "page \<Rightarrow> ReelData \<Rightarrow> ReelData" where
  "audio_dom_step_v2 pg r =
     (if truthy_str (audioUsed r) then r
      else (case audio_selectors_v2 pg audioSelectors_v2 of
              Inl e \<Rightarrow> r\<lparr>audioUsed := Some (str ''Audio extraction failed'')\<rparr>
            | Inr (Some a) \<Rightarrow> r\<lparr>audioUsed := Some a\<rparr>
            | Inr None \<Rightarrow> r\<lparr>audioUsed := Some (str ''Audio not detected'')\<rparr>))"

definition extract_audio_v2 :: "page \<Rightarrow> ReelData \<Rightarrow> ReelData" where
  "extract_audio_v2 pg reelData =
     (if truthy_str (audioUsed reelData) then reelData
      else (case bodyTextOrEmpty pg of
              Inl e \<Rightarrow> reelData\<lparr>audioUsed := Some (str ''Audio extraction failed'')\<rparr>
            | Inr allText \<Rightarrow> audio_dom_step_v2 pg (audio_text_step_v2 allText reelData)))"

text \<open>
  Metrics (lines 223 to 312). \<open>num_rx\<close> is
  \<^verbatim>\<open>\d{1,3}(?:[,.]\d{3})*(?:\.\d+)?[KMB]?\<close>; every pattern below has the flags g and i, and
  the number is read again from the first match with \<^verbatim>\<open>/(...)/i\<close>. The patterns are,
  for likes: number, white space, \<^verbatim>\<open>likes?\<close>; number, white space, \<^verbatim>\<open>like\<close>;
  \<^verbatim>\<open>Liked by\s+.*?and\s+\<close> number \<^verbatim>\<open>\s*others\<close>; for views: \<^verbatim>\<open>views?\<close> and
  \<^verbatim>\<open>plays?\<close>; for comments: \<^verbatim>\<open>View all\s+\<close> number \<^verbatim>\<open>\s*comments?\<close>, and number
  \<^verbatim>\<open>\s*comments?\<close>. The loop over buttons and links reads the aria-label of each.
\<close>

definition num_capture :: rx where
  "num_capture = Cap 1 num_rx"

definition keyword_rx :: "string \<Rightarrow> rx" where
  "keyword_rx w = Cat num_capture (Cat (star (One [Spc])) (lit w))"

definition keyword_s_rx :: "string \<Rightarrow> rx" where
  "keyword_s_rx w = Cat num_capture (Cat (star (One [Spc])) (Cat (lit w) (opt (lit ''s''))))"

definition liked_by_rx :: rx where
  "liked_by_rx = Cat (lit ''Liked by'') (Cat (plus (One [Spc])) (Cat (Rep 0 None False AnyChar)
       (Cat (lit ''and'') (Cat (plus (One [Spc])) (Cat num_capture (Cat (star (One [Spc])) (lit ''others'')))))))"

definition view_all_rx :: rx where
  "view_all_rx = Cat (lit ''View all'') (Cat (plus (One [Spc])) (keyword_s_rx ''comment''))"

definition likesPatterns_v2 :: "rx list" where
  "likesPatterns_v2 = [keyword_s_rx ''like'', keyword_rx ''like'', liked_by_rx]"

definition viewsPatterns_v2 :: "rx list" where
  "viewsPatterns_v2 = [keyword_s_rx ''view'', keyword_s_rx ''play'']"

definition commentsPatterns_v2 :: "rx list" where
  "commentsPatterns_v2 = [view_all_rx, keyword_s_rx ''comment'']"

fun metric_patterns :: "rx list \<Rightarrow> jstring \<Rightarrow> number option" where
  "metric_patterns [] pageText = None"
| "metric_patterns (pattern # rest) pageText =
     (case rx_match_all True pattern pageText of
        [] \<Rightarrow> metric_patterns rest pageText
      | m0 # _ \<Rightarrow>
          (case rx_match True num_capture m0 of
             Some numMatch \<Rightarrow> Some (parseMetric (grp numMatch 1))
           | None \<Rightarrow> metric_patterns rest pageText))"

definition aria_step_v2 :: "jstring \<Rightarrow> ReelData \<Rightarrow> ReelData" where
  "aria_step_v2 a r =
     (let r1 = (if str_includes a (str ''like'') \<and> \<not> truthy_num (likes r) then
                  (case rx_match True num_capture a of
                     Some likeMatch \<Rightarrow> r\<lparr>likes := Some (parseMetric (grp likeMatch 1))\<rparr>
                   | None \<Rightarrow> r)
                else r)
      in if str_includes a (str ''comment'') \<and> \<not> truthy_num (comments r1) then
           (case rx_match True num_capture a of
              Some commentMatch \<Rightarrow> r1\<lparr>comments := Some (parseMetric (grp commentMatch 1))\<rparr>
            | None \<Rightarrow> r1)
         else r1)"

fun aria_loop_v2 :: "element list \<Rightarrow> ReelData \<Rightarrow> ReelData" where
  "aria_loop_v2 [] r = r"
| "aria_loop_v2 (button # rest) r =
     (case ariaLabel button of
        Inl e \<Rightarrow> r
      | Inr None \<Rightarrow> aria_loop_v2 rest r
      | Inr (Some a) \<Rightarrow>
          if a = [] then aria_loop_v2 rest r else aria_loop_v2 rest (aria_step_v2 a r))"

definition likes_step_v2 :: "jstring \<Rightarrow> ReelData \<Rightarrow> ReelData" where
  "likes_step_v2 pageText r =
     (if truthy_num (likes r) then r
      else (case metric_patterns likesPatterns_v2 pageText of
              Some n \<Rightarrow> r\<lparr>likes := Some n\<rparr> | None \<Rightarrow> r))"

definition views_step_v2 :: "jstring \<Rightarrow> ReelData \<Rightarrow> ReelData" where
  "views_step_v2 pageText r =
     (if truthy_num (views r) then r
      else (case metric_patterns viewsPatterns_v2 pageText of
              Some n \<Rightarrow> r\<lparr>views := Some n\<rparr> | None \<Rightarrow> r))"

definition comments_step_v2 :: "jstring \<Rightarrow> ReelData \<Rightarrow> ReelData" where
  "comments_step_v2 pageText r =
     (if truthy_num (comments r) then r
      else (case metric_patterns commentsPatterns_v2 pageText of
              Some n \<Rightarrow> r\<lparr>comments := Some n\<rparr> | None \<Rightarrow> r))"

definition buttons_step_v2 :: "page \<Rightarrow> ReelData \<Rightarrow> ReelData" where
  "buttons_step_v2 pg r =
     (if truthy_num (likes r) \<and> truthy_num (comments r) then r
      else (case queryAll pg (str ''button, a'') of
              Inl e \<Rightarrow> r
            | Inr buttons \<Rightarrow> aria_loop_v2 buttons r))"

definition extract_metrics_v2 :: "page \<Rightarrow> ReelData \<Rightarrow> ReelData" where
  "extract_metrics_v2 pg reelData =
     (if truthy_num (likes reelData) \<and> truthy_num (views reelData) \<and> truthy_num (comments reelData)
      then reelData
      else (case bodyTextOrEmpty pg of
              Inl e \<Rightarrow> reelData
            | Inr pageText \<Rightarrow>
                buttons_step_v2 pg (comments_step_v2 pageText (views_step_v2 pageText
                  (likes_step_v2 pageText reelData)))))"

text \<open>
  Caption (lines 315 to 349), and the handler as a whole.
\<close>

definition captionSelectors_v2 :: "jstring list" where
  \<open>captionSelectors_v2 = [str ''article div[class*="caption"] span'',
     str ''div[data-testid="post-caption"] span'', str ''article div span[dir="auto"]'',
     str ''article div div div div span'', str ''div._a9zs span'', str ''div[class*="_a9z"] span'',
     str ''article span'']\<close>

fun caption_elements_v2 :: "element list \<Rightarrow> jstring option res" where
  "caption_elements_v2 [] = Inr None"
| "caption_elements_v2 (el # rest) =
     (case textContent el of
        Inl e \<Rightarrow> Inl e
      | Inr None \<Rightarrow> caption_elements_v2 rest
      | Inr (Some caption) \<Rightarrow>
          if caption \<noteq> [] \<and> 10 < length (trim caption) \<and> \<not> str_includes caption (str ''likes'')
             \<and> \<not> str_includes caption (str ''views'')
          then Inr (Some caption) else caption_elements_v2 rest)"

fun caption_selectors_v2 :: "page \<Rightarrow> jstring list \<Rightarrow> jstring option" where
  "caption_selectors_v2 pg [] = None"
| "caption_selectors_v2 pg (selector # rest) =
     (case queryAll pg selector of
        Inl e \<Rightarrow> None
      | Inr elements \<Rightarrow>
          (case caption_elements_v2 elements of
             Inl e \<Rightarrow> None
           | Inr (Some caption) \<Rightarrow> Some caption
           | Inr None \<Rightarrow> caption_selectors_v2 pg rest))"

definition accept_caption_v2 :: "jstring \<Rightarrow> ReelData \<Rightarrow> ReelData" where
  "accept_caption_v2 caption reelData =
     (let r = reelData\<lparr>description := Some (trim caption)\<rparr>;
          firstLine = trim (first_line caption)
      in if length firstLine \<le> 100 \<and> 3 < length firstLine then r\<lparr>title := Some firstLine\<rparr> else r)"

definition extract_caption_v2 :: "page \<Rightarrow> ReelData \<Rightarrow> ReelData" where
  "extract_caption_v2 pg reelData =
     (if truthy_str (description reelData) then reelData
      else (case caption_selectors_v2 pg captionSelectors_v2 of
              Some caption \<Rightarrow> accept_caption_v2 caption reelData
            | None \<Rightarrow> reelData))"

definition redirected :: "jstring \<Rightarrow> exn" where
  "redirected u = Error (str ''Redirected away from reel: '' @ u)"

definition navigate_v2 :: "page \<Rightarrow> jstring \<Rightarrow> unit res" where
  "navigate_v2 pg request_url =
     (case goto pg request_url of
        Inl e \<Rightarrow> Inl e
      | Inr _ \<Rightarrow>
          if \<not> str_includes (currentUrl pg) (str ''instagram.com/reel/'')
          then Inl (redirected (currentUrl pg)) else Inr ())"

definition requestHandler_v2 :: "page \<Rightarrow> jstring \<Rightarrow> ReelData list \<Rightarrow> ReelData list" where
  "requestHandler_v2 pg request_url dataset =
     (let reelData = new_ReelData request_url
      in case navigate_v2 pg request_url of
           Inl err \<Rightarrow> pushData (reelData\<lparr>error := Some (message_of err)\<rparr>) dataset
         | Inr _ \<Rightarrow>
             pushData (extract_caption_v2 pg (extract_metrics_v2 pg (extract_audio_v2 pg
                        (extract_username_v2 pg (api_strategy_v2 pg reelData))))) dataset)"

fun split_lines :: "jstring \<Rightarrow> jstring list" where
  "split_lines [] = [[]]"
| "split_lines (c # cs) =
     (if c = 10 then [] # split_lines cs
      else (case split_lines cs of l # ls \<Rightarrow> (c # l) # ls | [] \<Rightarrow> [[c]]))"

definition toLower :: "nat \<Rightarrow> nat" where
  "toLower c = (if 65 \<le> c \<and> c \<le> 90 then c + 32 else if c = 8490 then 107 else c)"

definition toLowerCase :: "jstring \<Rightarrow> jstring" where
  "toLowerCase s = map toLower s"

subsection \<open>Second enhanced variant (page-text patterns, exact selectors)\<close>

text \<open>
  The request handler of the second variant in the unnamed source file (lines 452 to 820).
  Navigation (lines 459 to 487): \<open>goto\<close>; waiting for the video element, and for the body
  when that fails; the URL test; reading the page text. Each of these throws to the outer
  handler.
\<close>

definition navigate_v3 :: "page \<Rightarrow> jstring \<Rightarrow> jstring res" where
  \<open>navigate_v3 pg request_url =
     (case goto pg request_url of
        Inl e \<Rightarrow> Inl e
      | Inr _ \<Rightarrow>
          (case (case waitForSelector pg (str ''video, [role="dialog"]'') of
                   Inl e \<Rightarrow> waitForSelector pg (str ''body'')
                 | Inr _ \<Rightarrow> Inr ()) of
             Inl e \<Rightarrow> Inl e
           | Inr _ \<Rightarrow>
               if \<not> str_includes (currentUrl pg) (str ''instagram.com/reel/'')
               then Inl (redirected (currentUrl pg))
               else bodyTextOrEmpty pg))\<close>

text \<open>
  Username (lines 490 to 555). The link target is matched by
  \<^verbatim>\<open>/instagram\.com\/([^/?#]+)\/?$/\<close>. Method 1 takes, for each profile link, the target if
  it passes the reserved-segment test and else the text if it passes the text test; an
  exception in method 1 ends the whole block. Method 2 tries three header selectors, each in
  a handler of its own.
\<close>

definition profile_href_rx :: rx where
  "profile_href_rx = Cat (lit ''instagram.com/'')
     (Cat (Cap 1 (plus (NotOne [Ch 47, Ch 63, Ch 35]))) (Cat (opt (One [Ch 47])) Eoi))"

definition href_username_v3 :: "jstring option \<Rightarrow> jstring option" where
  "href_username_v3 h =
     (case h of
        None \<Rightarrow> None
      | Some hs \<Rightarrow>
          if hs = [] then None
          else (case rx_match False profile_href_rx hs of
                  None \<Rightarrow> None
                | Some m \<Rightarrow>
                    if grp m 1 \<noteq> [] \<and> \<not> str_includes (grp m 1) (str ''accounts'')
                       \<and> \<not> str_includes (grp m 1) (str ''reel'')
                       \<and> \<not> str_includes (grp m 1) (str ''audio'')
                       \<and> \<not> str_includes (grp m 1) (str ''explore'')
                       \<and> 1 < length (grp m 1)
                    then Some (grp m 1) else None))"

definition text_username_v3 :: "jstring option \<Rightarrow> jstring option" where
  "text_username_v3 t =
     (case t of
        None \<Rightarrow> None
      | Some ts \<Rightarrow>
          if ts \<noteq> [] \<and> trim ts \<noteq> [] \<and> \<not> str_includes ts (str ''Follow'')
             \<and> \<not> str_includes ts (str ''Sign'') \<and> \<not> str_includes ts (str ''Log'')
             \<and> \<not> str_includes ts [bullet] \<and> 1 < length ts \<and> length ts < 30
          then Some (trim ts) else None)"

fun profile_links_v3 :: "element list \<Rightarrow> jstring option res" where
  "profile_links_v3 [] = Inr None"
| "profile_links_v3 (link # rest) =
     (case href link of
        Inl e \<Rightarrow> Inl e
      | Inr h \<Rightarrow>
          (case textContent link of
             Inl e \<Rightarrow> Inl e
           | Inr t \<Rightarrow>
               (case href_username_v3 h of
                  Some u \<Rightarrow> Inr (Some u)
                | None \<Rightarrow>
                    (case text_username_v3 t of
                       Some u \<Rightarrow> Inr (Some u)
                     | None \<Rightarrow> profile_links_v3 rest))))"

definition header_username_v3 :: "jstring option \<Rightarrow> jstring option" where
  "header_username_v3 h =
     (case h of
        None \<Rightarrow> None
      | Some hs \<Rightarrow>
          if hs = [] then None
          else (case rx_match False profile_href_rx hs of
                  None \<Rightarrow> None
                | Some m \<Rightarrow>
                    if grp m 1 \<noteq> [] \<and> \<not> str_includes (grp m 1) (str ''accounts'')
                    then Some (grp m 1) else None))"

definition headerSelectors_v3 :: "jstring list" where
  \<open>headerSelectors_v3 = [str ''header h2 a'', str ''header h1 a'',
     str ''header a[href^="/"]:not([href*="accounts"])'']\<close>

fun header_selectors_v3 :: "page \<Rightarrow> jstring list \<Rightarrow> jstring option" where
  "header_selectors_v3 pg [] = None"
| "header_selectors_v3 pg (selector # rest) =
     (case query pg selector of
        Inl e \<Rightarrow> header_selectors_v3 pg rest
      | Inr None \<Rightarrow> header_selectors_v3 pg rest
      | Inr (Some el) \<Rightarrow>
          (case href el of
             Inl e \<Rightarrow> header_selectors_v3 pg rest
           | Inr h \<Rightarrow>
               (case header_username_v3 h of
                  Some u \<Rightarrow> Some u
                | None \<Rightarrow> header_selectors_v3 pg rest)))"

definition profileLinkSelector_v3 :: jstring where
  \<open>profileLinkSelector_v3 =
     str ''a[href^="/"]:not([href="/"]):not([href*="accounts"]):not([href*="login"]):not([href*="signup"])''\<close>

definition extract_username_v3 :: "page \<Rightarrow> ReelData \<Rightarrow> ReelData" where
  "extract_username_v3 pg reelData =
     (case queryAll pg profileLinkSelector_v3 of
        Inl e \<Rightarrow> reelData
      | Inr profileLinks \<Rightarrow>
          (case profile_links_v3 profileLinks of
             Inl e \<Rightarrow> reelData
           | Inr (Some u) \<Rightarrow> reelData\<lparr>username := Some u\<rparr>
           | Inr None \<Rightarrow>
               if truthy_str (username reelData) then reelData
               else (case header_selectors_v3 pg headerSelectors_v3 of
                       Some u \<Rightarrow> reelData\<lparr>username := Some u\<rparr>
                     | None \<Rightarrow> reelData)))"

text \<open>
  Metrics (lines 558 to 658). Strategy 1 runs over all matches of
  \<^verbatim>\<open>/(\d{1,3}(?:,\d{3})+)\s*(?:likes?|views?|comments?)/gi\<close>; the later steps run only for a
  metric that is still falsy.
\<close>

definition large_num :: rx where
  "large_num = Cat (Rep 1 (Some 3) True (One [Dig]))
                   (plus (Cat (One [Ch 44]) (Rep 3 (Some 3) True (One [Dig]))))"

definition largeNumberPattern :: rx where
  "largeNumberPattern = Cat (Cap 1 large_num) (Cat (star (One [Spc]))
     (Alt (Cat (lit ''like'') (opt (lit ''s'')))
       (Alt (Cat (lit ''view'') (opt (lit ''s''))) (Cat (lit ''comment'') (opt (lit ''s''))))))"

definition large_number_step :: "jstring \<Rightarrow> ReelData \<Rightarrow> ReelData" where
  "large_number_step m r =
     (let r1 = (if str_includes m (str ''like'') then
                  (case rx_match True (Cap 1 large_num) m of
                     Some numMatch \<Rightarrow> r\<lparr>likes := Some (parseMetric (grp numMatch 1))\<rparr>
                   | None \<Rightarrow> r)
                else r);
          r2 = (if str_includes m (str ''view'') then
                  (case rx_match True (Cap 1 large_num) m of
                     Some numMatch \<Rightarrow> r1\<lparr>views := Some (parseMetric (grp numMatch 1))\<rparr>
                   | None \<Rightarrow> r1)
                else r1)
      in if str_includes m (str ''comment'') then
           (case rx_match True (Cap 1 large_num) m of
              Some numMatch \<Rightarrow> r2\<lparr>comments := Some (parseMetric (grp numMatch 1))\<rparr>
            | None \<Rightarrow> r2)
         else r2)"

fun large_numbers_v3 :: "jstring list \<Rightarrow> ReelData \<Rightarrow> ReelData" where
  "large_numbers_v3 [] r = r"
| "large_numbers_v3 (m # rest) r = large_numbers_v3 rest (large_number_step m r)"

definition likesPatterns_v3 :: "rx list" where
  "likesPatterns_v3 = [keyword_s_rx ''like'', liked_by_rx]"

definition views_rx_v3 :: rx where
  "views_rx_v3 = Cat num_capture (Cat (star (One [Spc]))
     (Alt (Cat (lit ''view'') (opt (lit ''s''))) (Cat (lit ''play'') (opt (lit ''s'')))))"

definition comments_rx_v3 :: rx where
  "comments_rx_v3 = Cat (opt (Cat (lit ''View all'') (plus (One [Spc])))) (keyword_s_rx ''comment'')"

fun metric_patterns_v3 :: "rx list \<Rightarrow> jstring \<Rightarrow> number option" where
  "metric_patterns_v3 [] pageText = None"
| "metric_patterns_v3 (pattern # rest) pageText =
     (case rx_match_all True pattern pageText of
        [] \<Rightarrow> metric_patterns_v3 rest pageText
      | m0 # _ \<Rightarrow>
          if m0 = [] then metric_patterns_v3 rest pageText
          else (case rx_match True num_capture m0 of
                  Some numMatch \<Rightarrow> Some (parseMetric (grp numMatch 1))
                | None \<Rightarrow> metric_patterns_v3 rest pageText))"

definition commentsLinkSelector_v3 :: jstring where
  \<open>commentsLinkSelector_v3 = str ''a[href*="/comments/"] span''\<close>

definition comments_link_v3 :: "page \<Rightarrow> number option" where
  \<open>comments_link_v3 pg =
     (case query pg commentsLinkSelector_v3 of
        Inl e \<Rightarrow> None
      | Inr None \<Rightarrow> None
      | Inr (Some commentsLink) \<Rightarrow>
          (case textContent commentsLink of
             Inl e \<Rightarrow> None
           | Inr None \<Rightarrow> None
           | Inr (Some commentsText) \<Rightarrow>
               if commentsText = [] then None
               else (case rx_match True num_capture commentsText of
                       Some numMatch \<Rightarrow> Some (parseMetric (grp numMatch 1))
                     | None \<Rightarrow> None)))\<close>

definition likes_step_v3 :: "jstring \<Rightarrow> ReelData \<Rightarrow> ReelData" where
  "likes_step_v3 pageText r =
     (if truthy_num (likes r) then r
      else (case metric_patterns_v3 likesPatterns_v3 pageText of
              Some n \<Rightarrow> r\<lparr>likes := Some n\<rparr> | None \<Rightarrow> r))"

definition views_step_v3 :: "jstring \<Rightarrow> ReelData \<Rightarrow> ReelData" where
  "views_step_v3 pageText r =
     (if truthy_num (views r) then r
      else (case metric_patterns_v3 [views_rx_v3] pageText of
              Some n \<Rightarrow> r\<lparr>views := Some n\<rparr> | None \<Rightarrow> r))"

definition comments_link_step_v3 :: "page \<Rightarrow> ReelData \<Rightarrow> ReelData" where
  "comments_link_step_v3 pg r =
     (if truthy_num (comments r) then r
      else (case comments_link_v3 pg of
              Some n \<Rightarrow> r\<lparr>comments := Some n\<rparr> | None \<Rightarrow> r))"

definition comments_text_step_v3 :: "jstring \<Rightarrow> ReelData \<Rightarrow> ReelData" where
  "comments_text_step_v3 pageText r =
     (if truthy_num (comments r) then r
      else (case metric_patterns_v3 [comments_rx_v3] pageText of
              Some n \<Rightarrow> r\<lparr>comments := Some n\<rparr> | None \<Rightarrow> r))"

definition extract_metrics_v3 :: "page \<Rightarrow> jstring \<Rightarrow> ReelData \<Rightarrow> ReelData" where
  "extract_metrics_v3 pg pageText reelData =
     comments_text_step_v3 pageText (comments_link_step_v3 pg (views_step_v3 pageText
       (likes_step_v3 pageText
         (large_numbers_v3 (rx_match_all True largeNumberPattern pageText) reelData))))"

text \<open>
  Audio (lines 661 to 724): the audio link, in a handler of its own; all matches of
  \<^verbatim>\<open>/([A-Za-z][A-Za-z0-9\s]{2,30})\s*.\s*([A-Za-z][A-Za-z0-9\s]{2,30})/g\<close> (with the bullet in
  place of the dot); four status phrases; the sentinel. Between the handler of the audio link
  and the end of the block nothing calls the page, so the handler of the block, which would
  assign "Audio extraction failed", has nothing to catch.
\<close>

definition audioLinkSelector_v3 :: jstring where
  \<open>audioLinkSelector_v3 = str ''a[href*="/reels/audio/"]''\<close>

definition audio_link_v3 :: "page \<Rightarrow> jstring option" where
  \<open>audio_link_v3 pg =
     (case query pg audioLinkSelector_v3 of
        Inl e \<Rightarrow> None
      | Inr None \<Rightarrow> None
      | Inr (Some audioLink) \<Rightarrow>
          (case textContent audioLink of
             Inl e \<Rightarrow> None
           | Inr None \<Rightarrow> None
           | Inr (Some audioText) \<Rightarrow>
               if audioText \<noteq> [] \<and> trim audioText \<noteq> [] then Some (trim audioText) else None))\<close>

definition name_rx :: rx where
  "name_rx = Cat (One [Rng 65 90, Rng 97 122])
                 (Rep 2 (Some 30) True (One [Rng 65 90, Rng 97 122, Rng 48 57, Spc]))"

definition cleanAudioPattern :: rx where
  "cleanAudioPattern = Cat (Cap 1 name_rx) (Cat (star (One [Spc])) (Cat (One [Ch bullet])
                         (Cat (star (One [Spc])) (Cap 2 name_rx))))"

fun clean_audio_v3 :: "jstring list \<Rightarrow> jstring option" where
  "clean_audio_v3 [] = None"
| "clean_audio_v3 (m # rest) =
     (if \<not> str_includes m (str ''Sign'') \<and> \<not> str_includes m (str ''Log'')
         \<and> \<not> str_includes m (str ''Follow'') \<and> \<not> str_includes m (str ''Verified'')
         \<and> length m < 100
      then Some (trim m) else clean_audio_v3 rest)"

definition audioPatterns_v3 :: "rx list" where
  "audioPatterns_v3 = [lit ''Original audio'', lit ''Audio is muted'', lit ''Sound on'', lit ''Sound off'']"

fun audio_status_v3 :: "rx list \<Rightarrow> jstring \<Rightarrow> jstring option" where
  "audio_status_v3 [] pageText = None"
| "audio_status_v3 (pattern # rest) pageText =
     (case rx_match_all True pattern pageText of
        [] \<Rightarrow> audio_status_v3 rest pageText
      | m0 # _ \<Rightarrow> Some m0)"

definition audio_link_step_v3 :: "page \<Rightarrow> ReelData \<Rightarrow> ReelData" where
  "audio_link_step_v3 pg r =
     (case audio_link_v3 pg of Some a \<Rightarrow> r\<lparr>audioUsed := Some a\<rparr> | None \<Rightarrow> r)"

definition audio_clean_step_v3 :: "jstring \<Rightarrow> ReelData \<Rightarrow> ReelData" where
  "audio_clean_step_v3 pageText r =
     (if truthy_str (audioUsed r) then r
      else (case clean_audio_v3 (rx_match_all False cleanAudioPattern pageText) of
              Some a \<Rightarrow> r\<lparr>audioUsed := Some a\<rparr> | None \<Rightarrow> r))"

definition audio_status_step_v3 :: "jstring \<Rightarrow> ReelData \<Rightarrow> ReelData" where
  "audio_status_step_v3 pageText r =
     (if truthy_str (audioUsed r) then r
      else (case audio_status_v3 audioPatterns_v3 pageText of
              Some a \<Rightarrow> r\<lparr>audioUsed := Some a\<rparr> | None \<Rightarrow> r))"

definition audio_fallback_v3 :: "ReelData \<Rightarrow> ReelData" where
  "audio_fallback_v3 r =
     (if truthy_str (audioUsed r) then r else r\<lparr>audioUsed := Some (str ''Audio not detected'')\<rparr>)"

definition extract_audio_v3 :: "page \<Rightarrow> jstring \<Rightarrow> ReelData \<Rightarrow> ReelData" where
  "extract_audio_v3 pg pageText reelData =
     audio_fallback_v3 (audio_status_step_v3 pageText (audio_clean_step_v3 pageText
       (audio_link_step_v3 pg reelData)))"

text \<open>
  Caption (lines 727 to 807): the designated heading; five selectors, each in a handler of its
  own; the lines of the page text. The markers of the third strategy are four emoji, given
  here by their code units, and the word "rock" in any case. \<open>toLowerCase\<close> lowers the
  letters A to Z and the Kelvin sign, the only code units that can give a letter of "rock".
\<close>

definition captionH1Selector_v3 :: jstring where
  "captionH1Selector_v3 = str ''h1._ap3a._aaco._aacu._aacx._aad7._aade''"

definition caption_h1_v3 :: "page \<Rightarrow> jstring option" where
  "caption_h1_v3 pg =
     (case query pg captionH1Selector_v3 of
        Inl e \<Rightarrow> None
      | Inr None \<Rightarrow> None
      | Inr (Some h1Element) \<Rightarrow>
          (case textContent h1Element of
             Inl e \<Rightarrow> None
           | Inr None \<Rightarrow> None
           | Inr (Some captionText) \<Rightarrow>
               if captionText \<noteq> [] \<and> trim captionText \<noteq> [] then Some (trim captionText) else None))"

definition captionSelectors_v3 :: "jstring list" where
  \<open>captionSelectors_v3 = [str ''h1[dir="auto"]'', str ''h1'', str ''span[dir="auto"]'',
     str ''div[class*="caption"] span'', str ''article span'']\<close>

definition caption_text_ok_v3 :: "jstring option \<Rightarrow> jstring \<Rightarrow> bool" where
  "caption_text_ok_v3 uname t =
     (t \<noteq> [] \<and> 10 < length (trim t) \<and> \<not> str_includes t (str ''likes'')
      \<and> \<not> str_includes t (str ''views'') \<and> \<not> str_includes t (str ''comments'')
      \<and> \<not> str_includes t (str ''Follow'') \<and> \<not> str_includes t [bullet]
      \<and> \<not> str_includes t (str ''The Black Eyed Peas'') \<and> \<not> str_includes t (str ''Sign'')
      \<and> \<not> str_includes t (str ''Log'') \<and> Some t \<noteq> uname)"

fun caption_elements_v3 :: "jstring option \<Rightarrow> element list \<Rightarrow> jstring option res" where
  "caption_elements_v3 uname [] = Inr None"
| "caption_elements_v3 uname (el # rest) =
     (case textContent el of
        Inl e \<Rightarrow> Inl e
      | Inr None \<Rightarrow> caption_elements_v3 uname rest
      | Inr (Some t) \<Rightarrow>
          if caption_text_ok_v3 uname t then Inr (Some (trim t))
          else caption_elements_v3 uname rest)"

fun caption_selectors_v3 :: "page \<Rightarrow> jstring option \<Rightarrow> jstring list \<Rightarrow> jstring option" where
  "caption_selectors_v3 pg uname [] = None"
| "caption_selectors_v3 pg uname (selector # rest) =
     (case queryAll pg selector of
        Inl e \<Rightarrow> caption_selectors_v3 pg uname rest
      | Inr elements \<Rightarrow>
          (case caption_elements_v3 uname elements of
             Inl e \<Rightarrow> caption_selectors_v3 pg uname rest
           | Inr (Some c) \<Rightarrow> Some c
           | Inr None \<Rightarrow> caption_selectors_v3 pg uname rest))"

definition caption_line_ok_v3 :: "jstring option \<Rightarrow> jstring \<Rightarrow> bool" where
  "caption_line_ok_v3 uname cleanLine =
     (10 < length cleanLine \<and> length cleanLine < 200
      \<and> \<not> str_includes cleanLine (str ''likes'') \<and> \<not> str_includes cleanLine (str ''views'')
      \<and> \<not> str_includes cleanLine (str ''comments'') \<and> \<not> str_includes cleanLine (str ''Follow'')
      \<and> \<not> str_includes cleanLine [bullet] \<and> \<not> str_includes cleanLine (str ''The Black Eyed Peas'')
      \<and> Some cleanLine \<noteq> uname
      \<and> (str_includes cleanLine [55357, 56697] \<or> str_includes cleanLine [55358, 56598]
         \<or> str_includes cleanLine [55356, 57253] \<or> str_includes cleanLine [10084, 65039]
         \<or> str_includes (toLowerCase cleanLine) (str ''rock'')))"

fun caption_lines_v3 :: "jstring option \<Rightarrow> jstring list \<Rightarrow> jstring option" where
  "caption_lines_v3 uname [] = None"
| "caption_lines_v3 uname (line # rest) =
     (if caption_line_ok_v3 uname (trim line) then Some (trim line)
      else caption_lines_v3 uname rest)"

definition caption_h1_step_v3 :: "page \<Rightarrow> ReelData \<Rightarrow> ReelData" where
  "caption_h1_step_v3 pg r =
     (case caption_h1_v3 pg of
        Some c \<Rightarrow> r\<lparr>description := Some c, title := Some c\<rparr>
      | None \<Rightarrow> r)"

definition caption_selectors_step_v3 :: "page \<Rightarrow> ReelData \<Rightarrow> ReelData" where
  "caption_selectors_step_v3 pg r =
     (if truthy_str (description r) then r
      else (case caption_selectors_v3 pg (username r) captionSelectors_v3 of
              Some c \<Rightarrow> r\<lparr>description := Some c, title := Some c\<rparr>
            | None \<Rightarrow> r))"

definition caption_lines_step_v3 :: "jstring \<Rightarrow> ReelData \<Rightarrow> ReelData" where
  "caption_lines_step_v3 pageText r =
     (if truthy_str (description r) then r
      else (case caption_lines_v3 (username r) (split_lines pageText) of
              Some c \<Rightarrow> r\<lparr>description := Some c, title := Some c\<rparr>
            | None \<Rightarrow> r))"

definition extract_caption_v3 :: "page \<Rightarrow> jstring \<Rightarrow> ReelData \<Rightarrow> ReelData" where
  "extract_caption_v3 pg pageText reelData =
     caption_lines_step_v3 pageText (caption_selectors_step_v3 pg (caption_h1_step_v3 pg reelData))"

definition requestHandler_v3 :: "page \<Rightarrow> jstring \<Rightarrow> ReelData list \<Rightarrow> ReelData list" where
  "requestHandler_v3 pg request_url dataset =
     (let reelData = new_ReelData request_url
      in case navigate_v3 pg request_url of
           Inl err \<Rightarrow> pushData (reelData\<lparr>error := Some (message_of err)\<rparr>) dataset
         | Inr pageText \<Rightarrow>
             pushData (extract_caption_v3 pg pageText (extract_audio_v3 pg pageText
                        (extract_metrics_v3 pg pageText (extract_username_v3 pg reelData)))) dataset)"

section \<open>Notions used to state the properties\<close>

fun digits_of :: "nat \<Rightarrow> jstring" where
  "digits_of n = (if n < 10 then [48 + n] else digits_of (n div 10) @ [48 + n mod 10])"

declare digits_of.simps [simp del]









definition only_metrics_differ :: "ReelData \<Rightarrow> ReelData \<Rightarrow> bool" where
  "only_metrics_differ r r' =
     (username r' = username r \<and> audioUsed r' = audioUsed r \<and> title r' = title r
      \<and> description r' = description r \<and> url r' = url r \<and> error r' = error r)"


definition text_page :: "jstring \<Rightarrow> jstring \<Rightarrow> page" where
  "text_page u t = \<lparr>goto = (\<lambda>_. Inr ()), waitForSelector = (\<lambda>_. Inr ()), waitForTimeout = Inr (),
     currentUrl = u, bodyText = Inr (Some t), sharedData = Inr None,
     query = (\<lambda>_. Inr None), queryAll = (\<lambda>_. Inr [])\<rparr>"

definition anchor :: "jstring \<Rightarrow> jstring option \<Rightarrow> element" where
  "anchor h t = \<lparr>href = Inr (Some h), textContent = Inr t, ariaLabel = Inr None\<rparr>"

definition reel_url :: jstring where
  "reel_url = str ''https://www.instagram.com/reel/ABC123/''"

definition waited_v3 :: "page \<Rightarrow> bool" where
  \<open>waited_v3 pg = (waitForSelector pg (str ''video, [role="dialog"]'') = Inr ()
                    \<or> waitForSelector pg (str ''body'') = Inr ())\<close>







definition no_audio_match_v3 :: "page \<Rightarrow> jstring \<Rightarrow> bool" where
  "no_audio_match_v3 pg t =
     (audio_link_v3 pg = None
      \<and> clean_audio_v3 (rx_match_all False cleanAudioPattern t) = None
      \<and> audio_status_v3 audioPatterns_v3 t = None)"


definition audio_step_throws_v2 :: "page \<Rightarrow> bool" where
  "audio_step_throws_v2 pg =
     (case bodyTextOrEmpty pg of
        Inl e \<Rightarrow> True
      | Inr t \<Rightarrow> \<not> truthy_str (audio_patterns_v2 audioPatterns_v2 t)
                 \<and> isl (audio_selectors_v2 pg audioSelectors_v2))"

definition throwing_page :: "jstring \<Rightarrow> jstring \<Rightarrow> page" where
  "throwing_page u t = (text_page u t)\<lparr>query := (\<lambda>_. Inl (Error (str ''Execution context was destroyed'')))\<rparr>"

definition result_v2 :: "page \<Rightarrow> jstring \<Rightarrow> ReelData" where
  "result_v2 pg u = extract_caption_v2 pg (extract_metrics_v2 pg (extract_audio_v2 pg
                        (extract_username_v2 pg (api_strategy_v2 pg (new_ReelData u)))))"

definition result_v3 :: "page \<Rightarrow> jstring \<Rightarrow> jstring \<Rightarrow> ReelData" where
  "result_v3 pg t u = extract_caption_v3 pg t (extract_audio_v3 pg t
                        (extract_metrics_v3 pg t (extract_username_v3 pg (new_ReelData u))))"




















section \<open>Evaluation rules\<close>

lemma rep_done: "rep f lo (Some 0) g st = [st]"
  by (subst rep.simps) simp

lemma rep_must: "0 < lo \<Longrightarrow> hi \<noteq> Some 0 \<Longrightarrow>
    rep f lo hi g st = concat (map (\<lambda>st'. rep f (lo - 1) (map_option (\<lambda>h. h - 1) hi) g st') (f st))"
  by (subst rep.simps) simp

lemma rep_may: "hi \<noteq> Some 0 \<Longrightarrow>
    rep f 0 hi g st =
      (let more = concat (map (\<lambda>st'. if length (fst st') < length (fst st)
                                          then rep f 0 (map_option (\<lambda>h. h - 1) hi) g st'
                                          else []) (f st))
       in if g then more @ [st] else st # more)"
  by (subst rep.simps) simp

lemmas rep_eval = rep_done rep_must rep_may





















lemma startsWith_Cons_ne: "a \<noteq> b \<Longrightarrow> \<not> startsWith (a # s) (b # t)"
  by simp























lemmas rx_ev = rep_eval matched_def lit_def opt_def star_def plus_def num_rx_def num_main_def
  case_variants_def isLineTerminator_def str_def isDigit_def isSpace_def Let_def
  rx_match_def rx_match_all_def grp_def num_capture_def keyword_rx_def keyword_s_rx_def
  liked_by_rx_def view_all_rx_def large_num_def largeNumberPattern_def views_rx_v3_def
  comments_rx_v3_def name_rx_def cleanAudioPattern_def audioPatterns_v3_def likesPatterns_v3_def
  bullet_def profile_href_rx_def likes_rx_main_def views_rx_main_def comments_rx_main_def
  href_rx_v2_def

lemmas page_ev = text_page_def anchor_def reel_url_def


subsection \<open>Sample matches\<close>

text \<open>
  The matcher on a few inputs, with the results the host reports for them; the last lemma
  compares the scanning function \<open>match_numeric\<close> with the matcher run on the pattern it
  stands for.
\<close>

lemma sample_backtracking:
  "map_option (\<lambda>m. (matched m, grp m 1)) (rx_match True (keyword_s_rx ''like'') (str ''1234 likes''))
     = Some (str ''234 likes'', str ''234'')"
  by (simp add: rx_ev)

lemma sample_lazy:
  "map_option (\<lambda>m. (matched m, grp m 1))
       (rx_match True liked_by_rx (str ''Liked by user123 and 5 others and 7 others''))
     = Some (str ''Liked by user123 and 5 others'', str ''5'')"
  by (simp add: rx_ev)

lemma sample_anchor:
  "map_option (\<lambda>m. grp m 1) (rx_match False profile_href_rx (str ''https://www.instagram.com/nasa/''))
     = Some (str ''nasa'')"
  "rx_match False profile_href_rx (str ''https://www.instagram.com/reel/ABC/'') = None"
  by (simp_all add: rx_ev)

lemma sample_global:
  "rx_match_all True largeNumberPattern (str ''12,345 views 1,000,000likes'')
     = [str ''12,345 views'', str ''1,000,000likes'']"
  by (simp add: rx_ev)

lemma sample_numeric_part:
  "match_numeric (str ''AB12.5.7'') = Some (str ''12.5'')"
  "map_option matched (rx_search False
       (Cat (plus (One [Dig])) (opt (Cat (One [Ch 46, Ch 44]) (plus (One [Dig])))))
       (str ''AB12.5.7'')) = Some (str ''12.5'')"
  "match_numeric (str ''7..5K'') = Some (str ''7'')"
  "map_option matched (rx_search False
       (Cat (plus (One [Dig])) (opt (Cat (One [Ch 46, Ch 44]) (plus (One [Dig])))))
       (str ''7..5K'')) = Some (str ''7'')"
  by (simp_all add: match_numeric_def rx_ev)

section \<open>The properties\<close>

subsection \<open>C1: the numeric normalizer\<close>


lemma digits_of_small: "digits_of 0 = [48]" "digits_of (Suc 0) = [49]"
  by (subst digits_of.simps, simp)+




subsection \<open>C9: round trip of the normalizer\<close>





subsection \<open>C7: one record per invocation\<close>



subsection \<open>C5: redirect away from the reel\<close>

text \<open>
  C5. In both enhanced variants, when the URL of the page after navigation does not contain
  the reel path segment, the handler emits the record that holds nothing but the request URL
  and an error message: no likes, views or comments. When navigation itself succeeded the
  message is "Redirected away from reel: " followed by that URL.
\<close>

theorem redirect_aborts:
  assumes "\<not> str_includes (currentUrl pg) (str ''instagram.com/reel/'')"
  shows "(\<exists>msg. requestHandler_v3 pg u ds = ds @ [(new_ReelData u)\<lparr>error := Some msg\<rparr>]
              \<and> (goto pg u = Inr () \<and> waited_v3 pg \<longrightarrow>
                    msg = str ''Redirected away from reel: '' @ currentUrl pg))
       \<and> (\<exists>msg. requestHandler_v2 pg u ds = ds @ [(new_ReelData u)\<lparr>error := Some msg\<rparr>]
              \<and> (goto pg u = Inr () \<longrightarrow>
                    msg = str ''Redirected away from reel: '' @ currentUrl pg))"
proof -
  have v3: "\<exists>e. navigate_v3 pg u = Inl e \<and>
      (goto pg u = Inr () \<and> waited_v3 pg \<longrightarrow> e = redirected (currentUrl pg))"
    using assms by (auto simp: navigate_v3_def waited_v3_def split: sum.splits)
  have v2: "\<exists>e. navigate_v2 pg u = Inl e \<and> (goto pg u = Inr () \<longrightarrow> e = redirected (currentUrl pg))"
    using assms by (auto simp: navigate_v2_def split: sum.splits)
  have m: "message_of (redirected x) = str ''Redirected away from reel: '' @ x" for x
    by (simp add: message_of_def redirected_def)
  from v3 obtain e3 where e3: "navigate_v3 pg u = Inl e3"
     "goto pg u = Inr () \<and> waited_v3 pg \<longrightarrow> e3 = redirected (currentUrl pg)" by blast
  from v2 obtain e2 where e2: "navigate_v2 pg u = Inl e2"
     "goto pg u = Inr () \<longrightarrow> e2 = redirected (currentUrl pg)" by blast
  have a: "requestHandler_v3 pg u ds = ds @ [(new_ReelData u)\<lparr>error := Some (message_of e3)\<rparr>]"
    by (simp add: requestHandler_v3_def e3 pushData_def)
  have b: "requestHandler_v2 pg u ds = ds @ [(new_ReelData u)\<lparr>error := Some (message_of e2)\<rparr>]"
    by (simp add: requestHandler_v2_def e2 pushData_def)
  show ?thesis using a b e3(2) e2(2) m by metis
qed

theorem redirect_aborts_witness:
  "\<not> str_includes (currentUrl (text_page (str ''https://www.instagram.com/accounts/login/'') []))
        (str ''instagram.com/reel/'')
   \<and> requestHandler_v3 (text_page (str ''https://www.instagram.com/accounts/login/'') []) reel_url []
       = [\<lparr>username = None, audioUsed = None, comments = None, likes = None, views = None,
           title = None, description = None, url = reel_url,
           error = Some (str ''Redirected away from reel: https://www.instagram.com/accounts/login/'')\<rparr>]
   \<and> requestHandler_v2 (text_page (str ''https://www.instagram.com/accounts/login/'') []) reel_url []
       = [\<lparr>username = None, audioUsed = None, comments = None, likes = None, views = None,
           title = None, description = None, url = reel_url,
           error = Some (str ''Redirected away from reel: https://www.instagram.com/accounts/login/'')\<rparr>]"
proof -
  define pg where "pg = text_page (str ''https://www.instagram.com/accounts/login/'') []"
  have h: "\<not> str_includes (currentUrl pg) (str ''instagram.com/reel/'')"
    by (simp add: pg_def page_ev str_def)
  have g: "goto pg reel_url = Inr ()" "waited_v3 pg" "currentUrl pg = str ''https://www.instagram.com/accounts/login/''"
    by (simp_all add: pg_def page_ev waited_v3_def)
  from redirect_aborts[OF h, of reel_url "[]"] g
  have "requestHandler_v3 pg reel_url [] = [(new_ReelData reel_url)\<lparr>error := Some (str ''Redirected away from reel: '' @ str ''https://www.instagram.com/accounts/login/'')\<rparr>]"
    "requestHandler_v2 pg reel_url [] = [(new_ReelData reel_url)\<lparr>error := Some (str ''Redirected away from reel: '' @ str ''https://www.instagram.com/accounts/login/'')\<rparr>]"
    by auto
  then show ?thesis using h unfolding pg_def[symmetric] by (simp add: new_ReelData_def str_def)
qed

subsection \<open>C6: partial success\<close>

lemma omd_refl: "only_metrics_differ r r"
  by (simp add: only_metrics_differ_def)

lemma omd_trans: "only_metrics_differ a b \<Longrightarrow> only_metrics_differ b c \<Longrightarrow> only_metrics_differ a c"
  by (simp add: only_metrics_differ_def)

lemma large_number_step_frame: "only_metrics_differ r (large_number_step m r)"
  by (simp add: large_number_step_def Let_def only_metrics_differ_def split: option.splits)

lemma large_numbers_v3_frame: "only_metrics_differ r (large_numbers_v3 xs r)"
proof (induction xs arbitrary: r)
  case Nil show ?case by (simp add: omd_refl)
next
  case (Cons m xs)
  show ?case using large_number_step_frame[of r m] Cons.IH[of "large_number_step m r"]
    by (simp add: omd_trans)
qed

lemma extract_metrics_v3_frame: "only_metrics_differ r (extract_metrics_v3 pg t r)"
proof -
  have 1: "only_metrics_differ x (likes_step_v3 t x)" for x
    by (simp add: likes_step_v3_def only_metrics_differ_def split: option.splits)
  have 2: "only_metrics_differ x (views_step_v3 t x)" for x
    by (simp add: views_step_v3_def only_metrics_differ_def split: option.splits)
  have 3: "only_metrics_differ x (comments_link_step_v3 pg x)" for x
    by (simp add: comments_link_step_v3_def only_metrics_differ_def split: option.splits)
  have 4: "only_metrics_differ x (comments_text_step_v3 t x)" for x
    by (simp add: comments_text_step_v3_def only_metrics_differ_def split: option.splits)
  show ?thesis unfolding extract_metrics_v3_def
    by (meson 1 2 3 4 large_numbers_v3_frame omd_trans)
qed

lemma extract_username_v3_frame:
  "audioUsed (extract_username_v3 pg r) = audioUsed r \<and> likes (extract_username_v3 pg r) = likes r
   \<and> views (extract_username_v3 pg r) = views r \<and> comments (extract_username_v3 pg r) = comments r
   \<and> title (extract_username_v3 pg r) = title r
   \<and> description (extract_username_v3 pg r) = description r
   \<and> url (extract_username_v3 pg r) = url r \<and> error (extract_username_v3 pg r) = error r"
  by (simp add: extract_username_v3_def split: sum.splits option.splits)

lemma extract_audio_v3_frame:
  "username (extract_audio_v3 pg t r) = username r \<and> likes (extract_audio_v3 pg t r) = likes r
   \<and> views (extract_audio_v3 pg t r) = views r \<and> comments (extract_audio_v3 pg t r) = comments r
   \<and> title (extract_audio_v3 pg t r) = title r
   \<and> description (extract_audio_v3 pg t r) = description r
   \<and> url (extract_audio_v3 pg t r) = url r \<and> error (extract_audio_v3 pg t r) = error r"
  by (simp add: extract_audio_v3_def audio_fallback_v3_def audio_status_step_v3_def
        audio_clean_step_v3_def audio_link_step_v3_def split: option.splits)

lemma extract_caption_v3_frame:
  "username (extract_caption_v3 pg t r) = username r \<and> likes (extract_caption_v3 pg t r) = likes r
   \<and> views (extract_caption_v3 pg t r) = views r \<and> comments (extract_caption_v3 pg t r) = comments r
   \<and> audioUsed (extract_caption_v3 pg t r) = audioUsed r
   \<and> url (extract_caption_v3 pg t r) = url r \<and> error (extract_caption_v3 pg t r) = error r"
  by (simp add: extract_caption_v3_def caption_lines_step_v3_def caption_selectors_step_v3_def
        caption_h1_step_v3_def split: option.splits)












subsection \<open>C2: the audio sentinel\<close>




lemma aria_step_v2_frame: "only_metrics_differ r (aria_step_v2 a r)"
  by (simp add: aria_step_v2_def Let_def only_metrics_differ_def split: option.splits)

lemma aria_loop_v2_frame: "only_metrics_differ r (aria_loop_v2 bs r)"
proof (induction bs arbitrary: r)
  case Nil show ?case by (simp add: omd_refl)
next
  case (Cons b bs)
  show ?case
    using Cons.IH[of r] Cons.IH[of "aria_step_v2 a r" for a] aria_step_v2_frame[of r]
    by (auto simp: omd_refl split: sum.splits option.splits intro: omd_trans)
qed

lemma extract_metrics_v2_frame: "only_metrics_differ r (extract_metrics_v2 pg r)"
proof -
  have 1: "only_metrics_differ x (likes_step_v2 t x)" for x t
    by (simp add: likes_step_v2_def only_metrics_differ_def split: option.splits)
  have 2: "only_metrics_differ x (views_step_v2 t x)" for x t
    by (simp add: views_step_v2_def only_metrics_differ_def split: option.splits)
  have 3: "only_metrics_differ x (comments_step_v2 t x)" for x t
    by (simp add: comments_step_v2_def only_metrics_differ_def split: option.splits)
  have 4: "only_metrics_differ x (buttons_step_v2 pg x)" for x
    using aria_loop_v2_frame by (auto simp: buttons_step_v2_def omd_refl split: sum.splits)
  have "only_metrics_differ r (buttons_step_v2 pg (comments_step_v2 t (views_step_v2 t (likes_step_v2 t r))))" for t
    by (meson 1 2 3 4 omd_trans)
  then show ?thesis by (auto simp: extract_metrics_v2_def omd_refl split: sum.splits)
qed

lemma extract_caption_v2_frame:
  "username (extract_caption_v2 pg r) = username r \<and> likes (extract_caption_v2 pg r) = likes r
   \<and> views (extract_caption_v2 pg r) = views r \<and> comments (extract_caption_v2 pg r) = comments r
   \<and> audioUsed (extract_caption_v2 pg r) = audioUsed r
   \<and> url (extract_caption_v2 pg r) = url r \<and> error (extract_caption_v2 pg r) = error r"
  by (simp add: extract_caption_v2_def accept_caption_v2_def Let_def split: option.splits)

lemma extract_username_v2_frame:
  "audioUsed (extract_username_v2 pg r) = audioUsed r \<and> likes (extract_username_v2 pg r) = likes r
   \<and> views (extract_username_v2 pg r) = views r \<and> comments (extract_username_v2 pg r) = comments r
   \<and> title (extract_username_v2 pg r) = title r
   \<and> description (extract_username_v2 pg r) = description r
   \<and> url (extract_username_v2 pg r) = url r \<and> error (extract_username_v2 pg r) = error r"
  by (simp add: extract_username_v2_def split: option.splits)

lemma extract_audio_v2_frame:
  "username (extract_audio_v2 pg r) = username r \<and> likes (extract_audio_v2 pg r) = likes r
   \<and> views (extract_audio_v2 pg r) = views r \<and> comments (extract_audio_v2 pg r) = comments r
   \<and> title (extract_audio_v2 pg r) = title r
   \<and> description (extract_audio_v2 pg r) = description r
   \<and> url (extract_audio_v2 pg r) = url r \<and> error (extract_audio_v2 pg r) = error r"
  by (simp add: extract_audio_v2_def audio_dom_step_v2_def audio_text_step_v2_def
        split: sum.splits option.splits)

lemma api_strategy_v2_frame:
  "audioUsed (api_strategy_v2 pg r) = audioUsed r \<and> url (api_strategy_v2 pg r) = url r
   \<and> error (api_strategy_v2 pg r) = error r"
  by (simp add: api_strategy_v2_def Let_def split: sum.splits option.splits)

lemma handler_v3_cases:
  "(\<exists>e. navigate_v3 pg u = Inl e \<and>
        requestHandler_v3 pg u ds = ds @ [(new_ReelData u)\<lparr>error := Some (message_of e)\<rparr>])
   \<or> (\<exists>t. navigate_v3 pg u = Inr t \<and> requestHandler_v3 pg u ds = ds @ [result_v3 pg t u])"
  by (cases "navigate_v3 pg u") (simp_all add: requestHandler_v3_def pushData_def result_v3_def)

lemma handler_v2_cases:
  "(\<exists>e. navigate_v2 pg u = Inl e \<and>
        requestHandler_v2 pg u ds = ds @ [(new_ReelData u)\<lparr>error := Some (message_of e)\<rparr>])
   \<or> (navigate_v2 pg u = Inr () \<and> requestHandler_v2 pg u ds = ds @ [result_v2 pg u])"
  by (cases "navigate_v2 pg u") (simp_all add: requestHandler_v2_def pushData_def result_v2_def)

lemma result_v3_audio: "audioUsed (result_v3 pg t u)
    = audioUsed (extract_audio_v3 pg t (extract_metrics_v3 pg t (extract_username_v3 pg (new_ReelData u))))"
  by (simp add: result_v3_def extract_caption_v3_frame)

lemma result_v3_error: "error (result_v3 pg t u) = None"
  using extract_metrics_v3_frame[of "extract_username_v3 pg (new_ReelData u)" pg t]
  by (simp add: result_v3_def extract_caption_v3_frame extract_audio_v3_frame extract_username_v3_frame
        only_metrics_differ_def new_ReelData_def)

lemma result_v2_audio: "audioUsed (result_v2 pg u)
    = audioUsed (extract_audio_v2 pg (extract_username_v2 pg (api_strategy_v2 pg (new_ReelData u))))"
  using extract_metrics_v2_frame[of "extract_audio_v2 pg (extract_username_v2 pg (api_strategy_v2 pg (new_ReelData u)))" pg]
  by (simp add: result_v2_def extract_caption_v2_frame only_metrics_differ_def)

lemma result_v2_error: "error (result_v2 pg u) = None"
  using extract_metrics_v2_frame[of "extract_audio_v2 pg (extract_username_v2 pg (api_strategy_v2 pg (new_ReelData u)))" pg]
  by (simp add: result_v2_def extract_caption_v2_frame extract_audio_v2_frame extract_username_v2_frame
        api_strategy_v2_frame only_metrics_differ_def new_ReelData_def)

lemma audio_sentinel_v3:
  assumes h: "navigate_v3 pg u = Inr t \<and> no_audio_match_v3 pg t"
  shows "\<exists>r. requestHandler_v3 pg u ds = ds @ [r] \<and> error r = None
              \<and> audioUsed r = Some (str ''Audio not detected'')"
proof -
  define r0 where "r0 = extract_metrics_v3 pg t (extract_username_v3 pg (new_ReelData u))"
  have a0: "audioUsed r0 = None"
    using extract_metrics_v3_frame[of "extract_username_v3 pg (new_ReelData u)" pg t]
    by (simp add: r0_def only_metrics_differ_def extract_username_v3_frame new_ReelData_def)
  have "audioUsed (extract_audio_v3 pg t r0) = Some (str ''Audio not detected'')"
    using h a0
    by (simp add: no_audio_match_v3_def extract_audio_v3_def audio_fallback_v3_def
          audio_status_step_v3_def audio_clean_step_v3_def audio_link_step_v3_def truthy_str_def)
  then have "audioUsed (result_v3 pg t u) = Some (str ''Audio not detected'')"
    by (simp add: result_v3_audio r0_def)
  moreover have "requestHandler_v3 pg u ds = ds @ [result_v3 pg t u]"
    using h handler_v3_cases[of pg u ds] by auto
  ultimately show ?thesis using result_v3_error by blast
qed





subsection \<open>C10: an exception in the audio step\<close>

text \<open>
  C10. In the first enhanced variant an exception thrown inside the audio step (by reading the
  page text, or by a selector lookup once no text pattern matched) does not propagate, and
  \<open>audioUsed\<close> becomes "Audio extraction failed". In the second enhanced variant an
  exception of the audio-link lookup is caught by an inner handler and counts as "no link":
  when the text strategies find nothing either, \<open>audioUsed\<close> is the sentinel
  "Audio not detected" and there is no error.
\<close>

theorem audio_exception:
  "(navigate_v2 pg u = Inr () \<and> audio_step_throws_v2 pg \<longrightarrow>
      (\<exists>r. requestHandler_v2 pg u ds = ds @ [r] \<and> error r = None
            \<and> audioUsed r = Some (str ''Audio extraction failed'')))
   \<and> (navigate_v3 pg u = Inr t \<and> isl (query pg audioLinkSelector_v3)
        \<and> clean_audio_v3 (rx_match_all False cleanAudioPattern t) = None
        \<and> audio_status_v3 audioPatterns_v3 t = None \<longrightarrow>
      (\<exists>r. requestHandler_v3 pg u ds = ds @ [r] \<and> error r = None
            \<and> audioUsed r = Some (str ''Audio not detected'')))"
proof (intro conjI impI)
  assume h: "navigate_v2 pg u = Inr () \<and> audio_step_throws_v2 pg"
  define r0 where "r0 = extract_username_v2 pg (api_strategy_v2 pg (new_ReelData u))"
  have a0: "audioUsed r0 = None"
    by (simp add: r0_def extract_username_v2_frame api_strategy_v2_frame new_ReelData_def)
  have "audioUsed (extract_audio_v2 pg r0) = Some (str ''Audio extraction failed'')"
  proof (cases "bodyTextOrEmpty pg")
    case (Inl e)
    then show ?thesis using a0 by (simp add: extract_audio_v2_def truthy_str_def)
  next
    case (Inr t)
    with h have p: "\<not> truthy_str (audio_patterns_v2 audioPatterns_v2 t)"
      and s: "isl (audio_selectors_v2 pg audioSelectors_v2)"
      by (simp_all add: audio_step_throws_v2_def)
    from s obtain e where e: "audio_selectors_v2 pg audioSelectors_v2 = Inl e"
      by (cases "audio_selectors_v2 pg audioSelectors_v2") auto
    have "\<not> truthy_str (audioUsed (audio_text_step_v2 t r0))"
      using p a0 by (auto simp: audio_text_step_v2_def truthy_str_def split: option.splits)
    then show ?thesis
      using Inr a0 e by (simp add: extract_audio_v2_def audio_dom_step_v2_def truthy_str_def)
  qed
  then have "audioUsed (result_v2 pg u) = Some (str ''Audio extraction failed'')"
    by (simp add: result_v2_audio r0_def)
  moreover have "requestHandler_v2 pg u ds = ds @ [result_v2 pg u]"
    using h handler_v2_cases[of pg u ds] by auto
  ultimately show "\<exists>r. requestHandler_v2 pg u ds = ds @ [r] \<and> error r = None
            \<and> audioUsed r = Some (str ''Audio extraction failed'')"
    using result_v2_error by blast
next
  assume h: "navigate_v3 pg u = Inr t \<and> isl (query pg audioLinkSelector_v3)
        \<and> clean_audio_v3 (rx_match_all False cleanAudioPattern t) = None
        \<and> audio_status_v3 audioPatterns_v3 t = None"
  then obtain e where "query pg audioLinkSelector_v3 = Inl e"
    by (cases "query pg audioLinkSelector_v3") auto
  then have "audio_link_v3 pg = None" by (simp add: audio_link_v3_def)
  with h have "no_audio_match_v3 pg t" by (simp add: no_audio_match_v3_def)
  with h show "\<exists>r. requestHandler_v3 pg u ds = ds @ [r] \<and> error r = None
            \<and> audioUsed r = Some (str ''Audio not detected'')"
    using audio_sentinel_v3[of pg u t ds] by blast
qed

theorem audio_exception_witness:
  "navigate_v3 (throwing_page reel_url []) reel_url = Inr []
   \<and> isl (query (throwing_page reel_url []) audioLinkSelector_v3)
   \<and> clean_audio_v3 (rx_match_all False cleanAudioPattern []) = None
   \<and> audio_status_v3 audioPatterns_v3 [] = None
   \<and> navigate_v2 (throwing_page reel_url []) reel_url = Inr ()
   \<and> audio_step_throws_v2 (throwing_page reel_url [])
   \<and> (\<exists>r. requestHandler_v3 (throwing_page reel_url []) reel_url [] = [r] \<and> error r = None
          \<and> audioUsed r = Some (str ''Audio not detected''))
   \<and> (\<exists>r. requestHandler_v2 (throwing_page reel_url []) reel_url [] = [r] \<and> error r = None
          \<and> audioUsed r = Some (str ''Audio extraction failed''))"
proof -
  define pg where "pg = throwing_page reel_url []"
  have n3: "navigate_v3 pg reel_url = Inr []"
    by (simp add: navigate_v3_def pg_def throwing_page_def page_ev bodyTextOrEmpty_def str_def)
  have n2: "navigate_v2 pg reel_url = Inr ()"
    by (simp add: navigate_v2_def pg_def throwing_page_def page_ev str_def)
  have q: "isl (query pg audioLinkSelector_v3)" by (simp add: pg_def throwing_page_def)
  have c: "clean_audio_v3 (rx_match_all False cleanAudioPattern []) = None"
    by (simp add: rx_ev)
  have s: "audio_status_v3 audioPatterns_v3 [] = None" by (simp add: rx_ev)
  have t2: "audio_step_throws_v2 pg"
    by (simp add: audio_step_throws_v2_def bodyTextOrEmpty_def pg_def throwing_page_def page_ev
          audioPatterns_v2_def audioSelectors_v2_def truthy_str_def rx_ev)
  from audio_exception[of pg reel_url "[]" "[]"] n3 n2 q c s t2
  have res: "(\<exists>r. requestHandler_v3 pg reel_url [] = [r] \<and> error r = None
          \<and> audioUsed r = Some (str ''Audio not detected''))
   \<and> (\<exists>r. requestHandler_v2 pg reel_url [] = [r] \<and> error r = None
          \<and> audioUsed r = Some (str ''Audio extraction failed''))"
    by simp
  show ?thesis using n3 n2 q c s t2 res unfolding pg_def by blast
qed

text \<open>
  A page of the second enhanced variant on which every element lookup throws: the record
  carries "Audio not detected", not "Audio extraction failed".
\<close>

theorem audio_exception_swallowed_counterexample:
  "query (throwing_page reel_url []) audioLinkSelector_v3
      = Inl (Error (str ''Execution context was destroyed''))
   \<and> requestHandler_v3 (throwing_page reel_url []) reel_url []
      = [\<lparr>username = None, audioUsed = Some (str ''Audio not detected''), comments = None,
          likes = None, views = None, title = None, description = None, url = reel_url,
          error = None\<rparr>]"
proof -
  define pg where "pg = throwing_page reel_url []"
  define r where "r = new_ReelData reel_url"
  have q: "query pg audioLinkSelector_v3 = Inl (Error (str ''Execution context was destroyed''))"
    by (simp add: pg_def throwing_page_def)
  have n: "navigate_v3 pg reel_url = Inr []"
    by (simp add: navigate_v3_def pg_def throwing_page_def page_ev bodyTextOrEmpty_def str_def)
  have 1: "extract_username_v3 pg r = r"
    by (simp add: extract_username_v3_def headerSelectors_v3_def pg_def throwing_page_def page_ev
          r_def new_ReelData_def truthy_str_def)
  have 2: "extract_metrics_v3 pg [] r = r"
    by (simp add: extract_metrics_v3_def likes_step_v3_def views_step_v3_def
          comments_link_step_v3_def comments_text_step_v3_def comments_link_v3_def
          pg_def throwing_page_def page_ev r_def new_ReelData_def truthy_num_def rx_ev)
  have 3: "extract_audio_v3 pg [] r = r\<lparr>audioUsed := Some (str ''Audio not detected'')\<rparr>"
    by (simp add: extract_audio_v3_def audio_fallback_v3_def audio_status_step_v3_def
          audio_clean_step_v3_def audio_link_step_v3_def audio_link_v3_def
          pg_def throwing_page_def page_ev r_def new_ReelData_def truthy_str_def rx_ev)
  have 4: "extract_caption_v3 pg [] (r\<lparr>audioUsed := Some (str ''Audio not detected'')\<rparr>)
        = r\<lparr>audioUsed := Some (str ''Audio not detected'')\<rparr>"
    by (simp add: extract_caption_v3_def caption_lines_step_v3_def caption_selectors_step_v3_def
          caption_h1_step_v3_def caption_h1_v3_def captionSelectors_v3_def caption_line_ok_v3_def
          pg_def throwing_page_def page_ev r_def new_ReelData_def truthy_str_def trim_def)
  have "requestHandler_v3 pg reel_url [] = [r\<lparr>audioUsed := Some (str ''Audio not detected'')\<rparr>]"
    by (simp add: requestHandler_v3_def n r_def[symmetric] 1 2 3 4 pushData_def)
  then show ?thesis using q unfolding pg_def r_def by (simp add: new_ReelData_def)
qed

subsection \<open>C3: title and description\<close>











subsection \<open>C4: validity of the username\<close>





















subsection \<open>C8: metrics are non-negative integers\<close>




















end
